theory Spec2Isabelle
  imports Complex_Main "HOL-Library.Sublist" "HOL-Library.Log_Nat" "HOL-Library.Multiset"
begin

section \<open>Data model\<close>

text \<open>
  The records follow the TypeScript types \<^verbatim>\<open>BOMRow\<close>, \<^verbatim>\<open>ItemVariant\<close> and
  \<^verbatim>\<open>InventoryItem\<close> as \<^verbatim>\<open>BOMUpload.tsx\<close> uses them. Field names carry a prefix
  (\<open>r_\<close>, \<open>v_\<close>, \<open>i_\<close>) because the three types share field names (\<^verbatim>\<open>id\<close>,
  \<^verbatim>\<open>name\<close>, \<^verbatim>\<open>size\<close>, ...) and because \<open>id\<close> and \<open>size\<close> are constants of HOL.

  Strings are lists of characters. The model is exact for ASCII text: case conversion
  maps the 26 ASCII letters and leaves every other character alone, and white space is
  the six ASCII white-space characters. Quantities and stock counts are JavaScript
  numbers that hold integers; they are modelled by \<open>int\<close>, which is exact below
  \<open>2 ^ 53\<close> in magnitude. Prices are modelled by rationals; where the source multiplies
  two numbers the model rounds the product to the nearest binary64 value, as the
  source's arithmetic does.
\<close>

datatype row_action = Create | Update | Ignore

record BOMRow =
  r_name :: string
  r_quantity :: int
  r_unitCost :: rat
  r_sku :: string
  r_size :: string
  r_color :: string
  r_vendor :: string
  r_hsn :: string
  r_action :: row_action
  r_matchedItemId :: "string option"

record ItemVariant =
  v_id :: string
  v_size :: string
  v_color :: string
  v_stock :: int

record InventoryItem =
  i_id :: string
  i_name :: string
  i_sku :: string
  i_category :: string
  i_hsn :: string
  i_variants :: "ItemVariant list"
  i_vendor :: string
  i_purchasePrice :: rat
  i_sellingPrice :: rat
  i_taxRate :: rat
  i_lowStockThreshold :: int
  i_createdAt :: int
  i_updatedAt :: int

section \<open>String primitives of the host language\<close>

definition lower_char :: "char \<Rightarrow> char" where
  "lower_char c =
     (case map_of (zip ''ABCDEFGHIJKLMNOPQRSTUVWXYZ'' ''abcdefghijklmnopqrstuvwxyz'') c of
        Some l \<Rightarrow> l | None \<Rightarrow> c)"

definition upper_char :: "char \<Rightarrow> char" where
  "upper_char c =
     (case map_of (zip ''abcdefghijklmnopqrstuvwxyz'' ''ABCDEFGHIJKLMNOPQRSTUVWXYZ'') c of
        Some u \<Rightarrow> u | None \<Rightarrow> c)"

definition toLowerCase :: "string \<Rightarrow> string" where
  "toLowerCase s = map lower_char s"

definition toUpperCase :: "string \<Rightarrow> string" where
  "toUpperCase s = map upper_char s"

text \<open>White space (tab, line feed, vertical tab, form feed, carriage return, space) and
  decimal digits.\<close>

definition is_space :: "char \<Rightarrow> bool" where
  "is_space c \<longleftrightarrow> c \<in> set [CHR 0x09, CHR 0x0A, CHR 0x0B, CHR 0x0C, CHR 0x0D, CHR 0x20]"

definition is_digit :: "char \<Rightarrow> bool" where
  "is_digit c \<longleftrightarrow> c \<in> set ''0123456789''"

text \<open>\<^verbatim>\<open>s.split(' ')\<close>: cut at every single space; two spaces in a row, a leading or a
  trailing space give an empty word, and the empty string gives one empty word.\<close>

fun split_space :: "string \<Rightarrow> string list" where
  "split_space [] = [[]]"
| "split_space (c # cs) =
     (if c = CHR '' '' then [] # split_space cs
      else (case split_space cs of [] \<Rightarrow> [[c]] | w # ws \<Rightarrow> (c # w) # ws))"

text \<open>\<^verbatim>\<open>w.includes(x)\<close>: \<open>x\<close> occurs in \<open>w\<close> as a contiguous substring.\<close>

fun js_includes :: "string \<Rightarrow> string \<Rightarrow> bool" where
  "js_includes [] x = (x = [])"
| "js_includes (c # cs) x = (prefix x (c # cs) \<or> js_includes cs x)"


section \<open>Numbers of the host language\<close>

text \<open>
  A JavaScript number is an IEEE 754 binary64 value. \<open>fl64\<close> rounds a rational to the
  nearest binary64 value, ties to the even significand: \<open>binade x\<close> is the exponent
  \<open>e\<close> with \<open>2 ^ e \<le> x < 2 ^ (e + 1)\<close>, values below \<open>2 ^ -1022\<close> are rounded on the
  subnormal grid of step \<open>2 ^ -1074\<close>. Overflow to \<^verbatim>\<open>Infinity\<close> (results of magnitude
  \<open>2 ^ 1024\<close> and above) is not modelled.
\<close>

definition round_half_even :: "rat \<Rightarrow> int" where
  "round_half_even x =
     (let f = \<lfloor>x\<rfloor>; d = x - of_int f
      in if d < 1 / 2 then f
         else if 1 / 2 < d then f + 1
         else if even f then f else f + 1)"

definition binade :: "rat \<Rightarrow> int" where
  "binade x =
     (let (p, q) = quotient_of x;
          e = bitlen p - bitlen q
      in if power_int 2 e \<le> x then e else e - 1)"

definition fl64 :: "rat \<Rightarrow> rat" where
  "fl64 x =
     (if x = 0 then 0
      else
        let a = \<bar>x\<bar>;
            e = max (binade a) (- 1022);
            ulp = power_int 2 (e - 52)
        in sgn x * of_int (round_half_even (a / ulp)) * ulp)"

text \<open>The product \<^verbatim>\<open>a * b\<close> of two numbers.\<close>

definition js_times :: "rat \<Rightarrow> rat \<Rightarrow> rat" where
  "js_times a b = fl64 (a * b)"

text \<open>The number that the literal \<^verbatim>\<open>1.4\<close> denotes.\<close>

definition js_1_4 :: rat where
  "js_1_4 = fl64 (14 / 10)"

text \<open>\<^verbatim>\<open>Math.round\<close>: the nearest integer, a tie going up.\<close>

definition Math_round :: "rat \<Rightarrow> int" where
  "Math_round x = \<lfloor>x + 1 / 2\<rfloor>"


section \<open>Word-overlap similarity (\<^verbatim>\<open>calculateSimilarity\<close>)\<close>

text \<open>The \<^verbatim>\<open>for (const word of shorterWords)\<close> loop with its counter \<^verbatim>\<open>matches\<close>.\<close>

fun count_matches :: "string list \<Rightarrow> string list \<Rightarrow> nat \<Rightarrow> nat" where
  "count_matches longerWords [] matches = matches"
| "count_matches longerWords (word # rest) matches =
     count_matches longerWords rest
       (if list_ex (\<lambda>w. js_includes w word \<or> js_includes word w) longerWords
        then matches + 1 else matches)"

text \<open>
  The result is the quotient of two word counts. It is modelled by the exact rational;
  the source's double is that rational rounded, and the only use of the value, the test
  \<^verbatim>\<open>similarity > 0.7\<close>, gives the same answer on both for every pair of counts a string
  can have (rounding is monotone, and a quotient other than \<open>7/10\<close> that rounds to the
  same double as \<open>0.7\<close> needs a denominator above \<open>2 ^ 49\<close>).
\<close>

definition calculateSimilarity :: "string \<Rightarrow> string \<Rightarrow> rat" where
  "calculateSimilarity str1 str2 =
     (let longer = (if length str1 > length str2 then str1 else str2);
          shorter = (if length str1 > length str2 then str2 else str1)
      in if length longer = 0 then 1
         else
           let shorterWords = split_space shorter;
               longerWords = split_space longer;
               matches = count_matches longerWords shorterWords 0
           in of_nat matches / of_nat (max (length shorterWords) (length longerWords)))"

subsection \<open>The reference definition of the specification\<close>

text \<open>
  The specification's wording, for comparison with the code: split both names into
  word lists; a word of the shorter name is matched when some word of the longer
  name contains it or is contained in it; the score is the number of matched words
  over the larger of the two word counts. The way of splitting is a parameter, so that
  the wording "on whitespace" and the code's \<^verbatim>\<open>split(' ')\<close> can both be put in.
  The shorter name is the one with fewer characters, the first one if both have the
  same number.
\<close>

text \<open>Splitting on white space: the maximal runs of characters that are not white space.\<close>

fun whitespace_words_aux :: "string \<Rightarrow> string \<Rightarrow> string list" where
  "whitespace_words_aux acc [] = (if acc = [] then [] else [rev acc])"
| "whitespace_words_aux acc (c # cs) =
     (if is_space c
      then (if acc = [] then whitespace_words_aux [] cs
            else rev acc # whitespace_words_aux [] cs)
      else whitespace_words_aux (c # acc) cs)"

definition whitespace_words :: "string \<Rightarrow> string list" where
  "whitespace_words s = whitespace_words_aux [] s"

definition similarity_ref :: "(string \<Rightarrow> string list) \<Rightarrow> string \<Rightarrow> string \<Rightarrow> rat" where
  "similarity_ref split a b =
     (let shorter = (if length b < length a then b else a);
          longer = (if length b < length a then a else b);
          sw = split shorter;
          lw = split longer
      in of_nat (length (filter (\<lambda>w. list_ex (\<lambda>v. sublist w v \<or> sublist v w) lw) sw))
           / of_nat (max (length sw) (length lw)))"


section \<open>Inventory matcher (\<^verbatim>\<open>matchWithExistingInventory\<close>)\<close>

text \<open>The callback of \<^verbatim>\<open>existingItems.find\<close>: exact name, then similarity, then SKU.
  A string is truthy when it is not empty.\<close>

definition is_match :: "BOMRow \<Rightarrow> InventoryItem \<Rightarrow> bool" where
  "is_match item existing =
     (let nameLower = toLowerCase (r_name item);
          existingLower = toLowerCase (i_name existing)
      in if nameLower = existingLower then True
         else if calculateSimilarity nameLower existingLower > 7 / 10 then True
         else if r_sku item \<noteq> [] \<and> i_sku existing \<noteq> []
                 \<and> toLowerCase (r_sku item) = toLowerCase (i_sku existing) then True
         else False)"

definition match_item :: "InventoryItem list \<Rightarrow> BOMRow \<Rightarrow> BOMRow" where
  "match_item existingItems item =
     (case find (is_match item) existingItems of
        Some m \<Rightarrow> item\<lparr>r_matchedItemId := Some (i_id m), r_action := Update\<rparr>
      | None \<Rightarrow> item)"

text \<open>\<open>existingItems\<close> is what \<^verbatim>\<open>await db.inventory.getAll()\<close> returned.\<close>

definition matchWithExistingInventory :: "InventoryItem list \<Rightarrow> BOMRow list \<Rightarrow> BOMRow list" where
  "matchWithExistingInventory existingItems items = map (match_item existingItems) items"

subsection \<open>Sample data\<close>

definition sample_row :: "string \<Rightarrow> BOMRow" where
  "sample_row n = \<lparr>r_name = n, r_quantity = 10, r_unitCost = 500, r_sku = ''SKU-1'',
     r_size = ''32'', r_color = ''Blue'', r_vendor = [], r_hsn = [], r_action = Create,
     r_matchedItemId = None\<rparr>"

definition sample_item :: "string \<Rightarrow> string \<Rightarrow> InventoryItem" where
  "sample_item k n = \<lparr>i_id = k, i_name = n, i_sku = ''JEA-32'', i_category = ''General'',
     i_hsn = [], i_variants = [\<lparr>v_id = ''v-1'', v_size = ''32'', v_color = ''Blue'', v_stock = 4\<rparr>],
     i_vendor = [], i_purchasePrice = 500, i_sellingPrice = 700, i_taxRate = 12,
     i_lowStockThreshold = 5, i_createdAt = 0, i_updatedAt = 0\<rparr>"


section \<open>The data store\<close>

text \<open>
  Modelled from the spec: the data store (\<^verbatim>\<open>db\<close> of \<^verbatim>\<open>@/lib/database\<close>) is not among the
  sources. The specification describes it as a key-indexed persistent store with
  get-all, get-by-id, add and update, with last-write-wins update semantics. The model
  is the list of the stored items in the order in which \<^verbatim>\<open>getAll\<close> returns them, the
  key of an item being its \<^verbatim>\<open>id\<close>; \<open>db_get\<close> is \<^verbatim>\<open>db.inventory.get\<close> and returns
  \<open>None\<close> for \<^verbatim>\<open>undefined\<close>.
\<close>

definition db_get :: "InventoryItem list \<Rightarrow> string \<Rightarrow> InventoryItem option" where
  "db_get db k = find (\<lambda>i. i_id i = k) db"

text \<open>
  Modelled from the spec: writing an item under its key. An item whose key is already
  stored replaces the stored one (the last write wins); a new key is appended.
\<close>

definition db_write :: "InventoryItem list \<Rightarrow> InventoryItem \<Rightarrow> InventoryItem list" where
  "db_write db item =
     (if list_ex (\<lambda>i. i_id i = i_id item) db
      then map (\<lambda>i. if i_id i = i_id item then item else i) db
      else db @ [item])"

text \<open>Modelled from the spec: \<^verbatim>\<open>db.inventory.add\<close>.\<close>

definition db_add :: "InventoryItem list \<Rightarrow> InventoryItem \<Rightarrow> InventoryItem list" where
  "db_add db item = db_write db item"

text \<open>Modelled from the spec: \<^verbatim>\<open>db.inventory.update\<close>.\<close>

definition db_update :: "InventoryItem list \<Rightarrow> InventoryItem \<Rightarrow> InventoryItem list" where
  "db_update db item = db_write db item"

section \<open>Commit (\<^verbatim>\<open>handleConfirm\<close>)\<close>

text \<open>
  The state that the loop of \<^verbatim>\<open>handleConfirm\<close> threads: the store, the two counters
  \<^verbatim>\<open>created\<close> and \<^verbatim>\<open>updated\<close> that the final notification reports, and how many
  times \<^verbatim>\<open>uuidv4()\<close> and \<^verbatim>\<open>new Date()\<close> have been called. The results of these two
  are inputs of the model: \<open>uuidv4 n\<close> is what call number \<open>n\<close> returns, \<open>now n\<close>
  the time stamp of call number \<open>n\<close>. The calls of the store do not fail in the model,
  so the \<^verbatim>\<open>catch\<close> branch of the source is not entered.
\<close>

record session =
  s_db :: "InventoryItem list"
  s_created :: nat
  s_updated :: nat
  s_uuid_calls :: nat
  s_date_calls :: nat

text \<open>\<^verbatim>\<open>findIndex\<close>: the index of the first element that satisfies \<open>P\<close>, or \<open>-1\<close>.\<close>

fun findIndex :: "('a \<Rightarrow> bool) \<Rightarrow> 'a list \<Rightarrow> int" where
  "findIndex P [] = - 1"
| "findIndex P (x # xs) =
     (if P x then 0 else (let k = findIndex P xs in if k < 0 then - 1 else k + 1))"

text \<open>The truth value of \<^verbatim>\<open>row.matchedItemId\<close>: false for \<^verbatim>\<open>undefined\<close> and for the
  empty string.\<close>

definition truthy_id :: "string option \<Rightarrow> bool" where
  "truthy_id m = (case m of None \<Rightarrow> False | Some k \<Rightarrow> k \<noteq> [])"

definition id_value :: "string option \<Rightarrow> string" where
  "id_value m = (case m of None \<Rightarrow> [] | Some k \<Rightarrow> k)"

text \<open>The branch for a row that is matched and whose item is still in the store.\<close>

definition update_existing ::
  "(nat \<Rightarrow> string) \<Rightarrow> (nat \<Rightarrow> int) \<Rightarrow> session \<Rightarrow> BOMRow \<Rightarrow> InventoryItem \<Rightarrow> session" where
  "update_existing uuidv4 now s row existing =
     (let updatedVariants = i_variants existing;
          variantIndex =
            findIndex (\<lambda>v. v_size v = r_size row \<and> v_color v = r_color row) updatedVariants;
          found = (variantIndex \<ge> 0);
          updatedVariants' =
            (if found
             then updatedVariants[nat variantIndex :=
                    (updatedVariants ! nat variantIndex)
                      \<lparr>v_stock := v_stock (updatedVariants ! nat variantIndex) + r_quantity row\<rparr>]
             else updatedVariants @
                    [\<lparr>v_id = uuidv4 (s_uuid_calls s), v_size = r_size row,
                      v_color = r_color row, v_stock = r_quantity row\<rparr>])
      in s\<lparr>s_db := db_update (s_db s)
                    (existing\<lparr>i_variants := updatedVariants',
                              i_updatedAt := now (s_date_calls s)\<rparr>),
            s_updated := s_updated s + 1,
            s_uuid_calls := (if found then s_uuid_calls s else s_uuid_calls s + 1),
            s_date_calls := s_date_calls s + 1\<rparr>)"

text \<open>The \<^verbatim>\<open>else\<close> branch: a new item with one variant.\<close>

definition create_item ::
  "(nat \<Rightarrow> string) \<Rightarrow> (nat \<Rightarrow> int) \<Rightarrow> session \<Rightarrow> BOMRow \<Rightarrow> session" where
  "create_item uuidv4 now s row =
     (let n = s_uuid_calls s;
          variant = \<lparr>v_id = uuidv4 n, v_size = r_size row, v_color = r_color row,
                     v_stock = r_quantity row\<rparr>;
          newItem =
            \<lparr>i_id = uuidv4 (n + 1),
             i_name = r_name row,
             i_sku = (if r_sku row \<noteq> [] then r_sku row
                      else toUpperCase (take 3 (r_name row)) @ ''-'' @ take 6 (uuidv4 (n + 2))),
             i_category = ''General'',
             i_hsn = r_hsn row,
             i_variants = [variant],
             i_vendor = r_vendor row,
             i_purchasePrice = r_unitCost row,
             i_sellingPrice =
               (if r_unitCost row > 0
                then of_int (Math_round (js_times (r_unitCost row) js_1_4)) else 0),
             i_taxRate = 12,
             i_lowStockThreshold = 5,
             i_createdAt = now (s_date_calls s),
             i_updatedAt = now (s_date_calls s + 1)\<rparr>
      in s\<lparr>s_db := db_add (s_db s) newItem,
            s_created := s_created s + 1,
            s_uuid_calls := (if r_sku row \<noteq> [] then n + 2 else n + 3),
            s_date_calls := s_date_calls s + 2\<rparr>)"

text \<open>The body of the \<^verbatim>\<open>for\<close> loop.\<close>

definition commit_row ::
  "(nat \<Rightarrow> string) \<Rightarrow> (nat \<Rightarrow> int) \<Rightarrow> session \<Rightarrow> BOMRow \<Rightarrow> session" where
  "commit_row uuidv4 now s row =
     (if r_action row = Update \<and> truthy_id (r_matchedItemId row)
      then (case db_get (s_db s) (id_value (r_matchedItemId row)) of
              Some existing \<Rightarrow> update_existing uuidv4 now s row existing
            | None \<Rightarrow> s)
      else create_item uuidv4 now s row)"

fun commit_rows ::
  "(nat \<Rightarrow> string) \<Rightarrow> (nat \<Rightarrow> int) \<Rightarrow> session \<Rightarrow> BOMRow list \<Rightarrow> session" where
  "commit_rows uuidv4 now s [] = s"
| "commit_rows uuidv4 now s (row # rows) =
     commit_rows uuidv4 now (commit_row uuidv4 now s row) rows"

definition handleConfirm ::
  "(nat \<Rightarrow> string) \<Rightarrow> (nat \<Rightarrow> int) \<Rightarrow> session \<Rightarrow> BOMRow list \<Rightarrow> session" where
  "handleConfirm uuidv4 now s parsedRows =
     (let itemsToProcess = filter (\<lambda>row. r_action row \<noteq> Ignore) parsedRows
      in commit_rows uuidv4 now s itemsToProcess)"

text \<open>\<^verbatim>\<open>updateRowAction\<close>, the handler of the three per-row buttons of the review
  step: it replaces the action of the row at \<open>index\<close> and nothing else.\<close>

definition updateRowAction :: "nat \<Rightarrow> row_action \<Rightarrow> BOMRow list \<Rightarrow> BOMRow list" where
  "updateRowAction index action prev =
     map (\<lambda>(i, row). if i = index then row\<lparr>r_action := action\<rparr> else row)
       (zip [0 ..< length prev] prev)"

subsection \<open>Sample data\<close>

definition sample_uuid :: "nat \<Rightarrow> string" where
  "sample_uuid n = (if n = 0 then ''uuid-a'' else if n = 1 then ''uuid-b''
     else if n = 2 then ''uuid-c'' else ''uuid-d'')"

definition sample_now :: "nat \<Rightarrow> int" where
  "sample_now n = 1000 + int n"

definition sample_session :: session where
  "sample_session = \<lparr>s_db = [sample_item ''inv-1'' ''Blue Jeans''], s_created = 0,
     s_updated = 0, s_uuid_calls = 0, s_date_calls = 0\<rparr>"

definition sample_update_row :: "string \<Rightarrow> BOMRow" where
  "sample_update_row mid =
     (sample_row ''blue jeans'')\<lparr>r_action := Update, r_matchedItemId := Some mid\<rparr>"


section \<open>Dashboard: top-selling items (\<^verbatim>\<open>loadDashboardData\<close>)\<close>

text \<open>
  An invoice carries its creation time (milliseconds, as \<^verbatim>\<open>new Date(inv.createdAt)\<close>
  compares) and its lines. Line quantities are integers.
\<close>

record InvoiceItem =
  li_itemName :: string
  li_quantity :: int

record Invoice =
  inv_createdAt :: int
  inv_items :: "InvoiceItem list"

text \<open>
  \<^verbatim>\<open>itemSales\<close> is a plain object used as a dictionary. Its own properties are kept in
  creation order; assigning to an existing key changes the value in place, assigning
  to a new key appends.
\<close>

fun obj_set :: "(string \<times> int) list \<Rightarrow> string \<Rightarrow> int \<Rightarrow> (string \<times> int) list" where
  "obj_set [] k v = [(k, v)]"
| "obj_set ((k', v') # ps) k v = (if k' = k then (k, v) # ps else (k', v') # obj_set ps k v)"

text \<open>\<^verbatim>\<open>itemSales[k] || 0\<close>: the stored number, or 0 for a key that is not there.\<close>

definition obj_get_or_0 :: "(string \<times> int) list \<Rightarrow> string \<Rightarrow> int" where
  "obj_get_or_0 obj k = (case map_of obj k of None \<Rightarrow> 0 | Some v \<Rightarrow> v)"

text \<open>The body of the inner \<^verbatim>\<open>forEach\<close>.\<close>

definition add_sale :: "InvoiceItem \<Rightarrow> (string \<times> int) list \<Rightarrow> (string \<times> int) list" where
  "add_sale item itemSales =
     obj_set itemSales (li_itemName item) (obj_get_or_0 itemSales (li_itemName item) + li_quantity item)"

text \<open>
  The names that a plain object inherits from \<^verbatim>\<open>Object.prototype\<close>. For such a name
  \<^verbatim>\<open>itemSales[name]\<close> is not \<^verbatim>\<open>undefined\<close> before the first assignment, the sum is a
  string and the comparison function of the sort returns \<^verbatim>\<open>NaN\<close>; the model gives no
  result (\<open>None\<close>) when a line of today's invoices has such a name.
\<close>

definition inherited_key :: "string \<Rightarrow> bool" where
  "inherited_key k \<longleftrightarrow>
     k \<in> set [''__proto__'', ''constructor'', ''hasOwnProperty'', ''isPrototypeOf'',
              ''propertyIsEnumerable'', ''toLocaleString'', ''toString'', ''valueOf'',
              ''__defineGetter__'', ''__defineSetter__'', ''__lookupGetter__'',
              ''__lookupSetter__'']"

text \<open>
  \<^verbatim>\<open>Object.entries\<close> lists the own properties in the order of the language: first the
  keys that are array indices (the canonical decimal numerals of the integers from 0 to
  \<open>2 ^ 32 - 2\<close>), in ascending numeric order, then all other keys in creation order.
\<close>

definition digit_value :: "char \<Rightarrow> int" where
  "digit_value c = of_char c - 48"

definition decimal_value :: "string \<Rightarrow> int" where
  "decimal_value s = foldl (\<lambda>n c. 10 * n + digit_value c) 0 s"

definition is_array_index :: "string \<Rightarrow> bool" where
  "is_array_index k \<longleftrightarrow>
     k \<noteq> [] \<and> list_all is_digit k \<and> (k = ''0'' \<or> hd k \<noteq> CHR ''0'')
     \<and> decimal_value k \<le> 4294967294"

definition Object_entries :: "(string \<times> int) list \<Rightarrow> (string \<times> int) list" where
  "Object_entries obj =
     sort_key (\<lambda>(k, v). decimal_value k) (filter (\<lambda>(k, v). is_array_index k) obj)
     @ filter (\<lambda>(k, v). \<not> is_array_index k) obj"

text \<open>
  \<^verbatim>\<open>.sort((a, b) => b.sold - a.sold)\<close>: the language guarantees a stable sort, so for
  integer totals the result is the stable sort by descending total.
\<close>

definition sort_by_sold_desc :: "(string \<times> int) list \<Rightarrow> (string \<times> int) list" where
  "sort_by_sold_desc entries = sort_key (\<lambda>(name, sold). - sold) entries"

text \<open>
  The computation of \<^verbatim>\<open>topSellingItems\<close>. \<open>today\<close> is local midnight, the value of
  \<^verbatim>\<open>today\<close> after \<^verbatim>\<open>setHours(0, 0, 0, 0)\<close>; \<open>invoices\<close> is what
  \<^verbatim>\<open>db.invoices.getAll()\<close> returned.
\<close>

definition todayInvoices :: "int \<Rightarrow> Invoice list \<Rightarrow> Invoice list" where
  "todayInvoices today invoices = filter (\<lambda>inv. inv_createdAt inv \<ge> today) invoices"

definition topSellingItems :: "int \<Rightarrow> Invoice list \<Rightarrow> (string \<times> int) list option" where
  "topSellingItems today invoices =
     (let invs = todayInvoices today invoices
      in if list_ex (\<lambda>inv. list_ex (\<lambda>item. inherited_key (li_itemName item)) (inv_items inv)) invs
         then None
         else
           let itemSales = fold (\<lambda>inv obj. fold add_sale (inv_items inv) obj) invs [];
               sorted = take 5 (sort_by_sold_desc (Object_entries itemSales))
           in Some sorted)"

subsection \<open>The reference definition of the specification\<close>

text \<open>
  The specification's wording: sum the line quantities per item name over today's
  invoices, sort the pairs by total, descending, ties in the order in which the names
  were first met, and keep the first five.
\<close>

fun first_occurrences :: "'a list \<Rightarrow> 'a list \<Rightarrow> 'a list" where
  "first_occurrences seen [] = []"
| "first_occurrences seen (x # xs) =
     (if x \<in> set seen then first_occurrences seen xs
      else x # first_occurrences (x # seen) xs)"

definition total_sold :: "InvoiceItem list \<Rightarrow> string \<Rightarrow> int" where
  "total_sold lines n = sum_list (map li_quantity (filter (\<lambda>l. li_itemName l = n) lines))"

definition encounter_totals :: "InvoiceItem list \<Rightarrow> (string \<times> int) list" where
  "encounter_totals lines =
     map (\<lambda>n. (n, total_sold lines n)) (first_occurrences [] (map li_itemName lines))"

definition top_selling_ref :: "int \<Rightarrow> Invoice list \<Rightarrow> (string \<times> int) list" where
  "top_selling_ref today invoices =
     take 5 (sort_key (\<lambda>p. - snd p)
       (encounter_totals
          (concat (map inv_items (filter (\<lambda>inv. today \<le> inv_createdAt inv) invoices)))))"

subsection \<open>Sample data\<close>

definition sample_invoice :: "int \<Rightarrow> (string \<times> int) list \<Rightarrow> Invoice" where
  "sample_invoice t ls =
     \<lparr>inv_createdAt = t, inv_items = map (\<lambda>(n, q). \<lparr>li_itemName = n, li_quantity = q\<rparr>) ls\<rparr>"


section \<open>Regular expressions of the host language\<close>

text \<open>
  The line parser is a cascade of regular expressions. They are modelled by terms of the
  type \<open>regex\<close>, one constructor per construct that the source uses, and by a
  backtracking matcher that follows the language's semantics: the alternatives of
  \<open>|\<close> are tried from left to right, the quantifiers \<open>?\<close>, \<open>*\<close> and \<open>+\<close> are greedy,
  and the first way of matching that succeeds is the match. A character class is a list
  of items. Under the flag \<^verbatim>\<open>i\<close> literal characters are compared up to ASCII case.
  A character outside ASCII (the rupee sign and the two long dashes of the source) is
  written as the sequence of its UTF-8 bytes.
\<close>

datatype class_item = CChar char | CDigit | CSpace | CWord

datatype regex =
    Lit char
  | Class "class_item list"
  | Bol
  | Eol
  | WordB
  | Eps
  | Seq regex regex
  | Alt regex regex
  | Opt regex
  | Star regex
  | Plus regex
  | Grp nat regex

text \<open>\<^verbatim>\<open>\w\<close> is a letter, a digit or the underscore.\<close>

definition is_word_char :: "char \<Rightarrow> bool" where
  "is_word_char c \<longleftrightarrow>
     c \<in> set ''abcdefghijklmnopqrstuvwxyzABCDEFGHIJKLMNOPQRSTUVWXYZ0123456789_''"

fun in_class_item :: "char \<Rightarrow> class_item \<Rightarrow> bool" where
  "in_class_item c (CChar d) = (c = d)"
| "in_class_item c CDigit = is_digit c"
| "in_class_item c CSpace = is_space c"
| "in_class_item c CWord = is_word_char c"

text \<open>
  A matcher state: the character before the current position (\<open>None\<close> at the start of
  the input), the input that is left, and the captures made so far.
\<close>

datatype mstate = MState "char option" string "(nat \<times> string) list"

fun ms_rest :: "mstate \<Rightarrow> string" where
  "ms_rest (MState p rest caps) = rest"

fun set_capture :: "nat \<Rightarrow> string \<Rightarrow> mstate \<Rightarrow> mstate" where
  "set_capture n rest0 (MState p rest caps) =
     MState p rest ((n, take (length rest0 - length rest) rest0) # caps)"

text \<open>\<^verbatim>\<open>\b\<close> holds where exactly one of the two neighbours is a word character.\<close>

definition at_word_boundary :: "char option \<Rightarrow> string \<Rightarrow> bool" where
  "at_word_boundary p rest =
     ((case p of None \<Rightarrow> False | Some c \<Rightarrow> is_word_char c)
      \<noteq> (case rest of [] \<Rightarrow> False | c # cs \<Rightarrow> is_word_char c))"

text \<open>
  The iterations of a greedy star: one more iteration is preferred to stopping, and an
  iteration that consumes nothing is not taken. The first argument bounds the number
  of iterations; the length of the input left is enough, since every iteration
  consumes a character.
\<close>

fun star_iter :: "nat \<Rightarrow> (mstate \<Rightarrow> mstate list) \<Rightarrow> mstate \<Rightarrow> mstate list" where
  "star_iter 0 f st = [st]"
| "star_iter (Suc n) f st =
     concat (map (\<lambda>st'. if length (ms_rest st') < length (ms_rest st)
                          then star_iter n f st' else []) (f st))
     @ [st]"

text \<open>
  \<open>rmatch ic r st\<close> lists the states in which a match of \<open>r\<close> that starts in \<open>st\<close>
  can end, in the order in which backtracking finds them.
\<close>

fun rmatch :: "bool \<Rightarrow> regex \<Rightarrow> mstate \<Rightarrow> mstate list" where
  "rmatch ic (Lit d) (MState p rest caps) =
     (case rest of
        [] \<Rightarrow> []
      | c # cs \<Rightarrow>
          if (if ic then lower_char c = lower_char d else c = d)
          then [MState (Some c) cs caps] else [])"
| "rmatch ic (Class items) (MState p rest caps) =
     (case rest of
        [] \<Rightarrow> []
      | c # cs \<Rightarrow> if list_ex (in_class_item c) items then [MState (Some c) cs caps] else [])"
| "rmatch ic Bol (MState p rest caps) = (if p = None then [MState p rest caps] else [])"
| "rmatch ic Eol (MState p rest caps) = (if rest = [] then [MState p rest caps] else [])"
| "rmatch ic WordB (MState p rest caps) =
     (if at_word_boundary p rest then [MState p rest caps] else [])"
| "rmatch ic Eps st = [st]"
| "rmatch ic (Seq r1 r2) st = concat (map (rmatch ic r2) (rmatch ic r1 st))"
| "rmatch ic (Alt r1 r2) st = rmatch ic r1 st @ rmatch ic r2 st"
| "rmatch ic (Opt r) st = rmatch ic r st @ [st]"
| "rmatch ic (Star r) st = star_iter (length (ms_rest st)) (rmatch ic r) st"
| "rmatch ic (Plus r) st =
     concat (map (\<lambda>st'. star_iter (length (ms_rest st')) (rmatch ic r) st') (rmatch ic r st))"
| "rmatch ic (Grp n r) st = map (set_capture n (ms_rest st)) (rmatch ic r st)"

text \<open>The literal string \<open>s\<close> as a regular expression, and a list of alternatives.\<close>

fun str :: "string \<Rightarrow> regex" where
  "str [] = Eps"
| "str [c] = Lit c"
| "str (c # cs) = Seq (Lit c) (str cs)"

fun alts :: "regex list \<Rightarrow> regex" where
  "alts [] = Class []"
| "alts [r] = r"
| "alts (r # rs) = Alt r (alts rs)"

fun seqs :: "regex list \<Rightarrow> regex" where
  "seqs [] = Eps"
| "seqs [r] = r"
| "seqs (r # rs) = Seq r (seqs rs)"

text \<open>
  \<^verbatim>\<open>s.match(r)\<close> for a regular expression without the flag \<^verbatim>\<open>g\<close>: the first match at
  the leftmost position that has one. The result is the matched text (\<^verbatim>\<open>match[0]\<close>)
  and the captures; \<open>None\<close> is \<^verbatim>\<open>null\<close>.
\<close>

fun exec_from ::
  "bool \<Rightarrow> regex \<Rightarrow> char option \<Rightarrow> string \<Rightarrow> (string \<times> (nat \<times> string) list) option" where
  "exec_from ic r p [] =
     (case rmatch ic r (MState p [] []) of
        [] \<Rightarrow> None
      | MState p' rest' caps # others \<Rightarrow> Some ([], caps))"
| "exec_from ic r p (c # cs) =
     (case rmatch ic r (MState p (c # cs) []) of
        [] \<Rightarrow> exec_from ic r (Some c) cs
      | MState p' rest' caps # others \<Rightarrow>
          Some (take (length (c # cs) - length rest') (c # cs), caps))"

definition js_match :: "bool \<Rightarrow> regex \<Rightarrow> string \<Rightarrow> (string \<times> (nat \<times> string) list) option" where
  "js_match ic r s = exec_from ic r None s"

text \<open>\<^verbatim>\<open>r.test(s)\<close>.\<close>

definition js_test :: "bool \<Rightarrow> regex \<Rightarrow> string \<Rightarrow> bool" where
  "js_test ic r s = (js_match ic r s \<noteq> None)"

text \<open>\<^verbatim>\<open>match[n]\<close> for a group that took part in the match.\<close>

definition group :: "nat \<Rightarrow> (nat \<times> string) list \<Rightarrow> string" where
  "group n caps = (case map_of caps n of None \<Rightarrow> [] | Some s \<Rightarrow> s)"


section \<open>String functions of the host language\<close>

text \<open>\<^verbatim>\<open>s.trim()\<close>.\<close>

definition trim :: "string \<Rightarrow> string" where
  "trim s = rev (dropWhile is_space (rev (dropWhile is_space s)))"

text \<open>\<^verbatim>\<open>s.replace(pat, rep)\<close> for a string \<open>pat\<close>: the first occurrence of \<open>pat\<close> is
  replaced. (The replacement strings of the source contain no \<^verbatim>\<open>$\<close>.)\<close>

fun replace_first :: "string \<Rightarrow> string \<Rightarrow> string \<Rightarrow> string" where
  "replace_first pat rep [] = (if pat = [] then rep else [])"
| "replace_first pat rep (c # cs) =
     (if prefix pat (c # cs) then rep @ drop (length pat) (c # cs)
      else c # replace_first pat rep cs)"

text \<open>
  \<^verbatim>\<open>s.replace(r, rep)\<close> for a regular expression with the flag \<^verbatim>\<open>g\<close>: every match is
  replaced, the search going on where the last match ended (one character further
  after an empty match).
\<close>

function replace_all :: "bool \<Rightarrow> regex \<Rightarrow> string \<Rightarrow> char option \<Rightarrow> string \<Rightarrow> string" where
  "replace_all ic r rep p [] =
     (case rmatch ic r (MState p [] []) of [] \<Rightarrow> [] | m # others \<Rightarrow> rep)"
| "replace_all ic r rep p (c # cs) =
     (case rmatch ic r (MState p (c # cs) []) of
        [] \<Rightarrow> c # replace_all ic r rep (Some c) cs
      | MState p' rest' caps # others \<Rightarrow>
          if length rest' < length (c # cs) then rep @ replace_all ic r rep p' rest'
          else rep @ c # replace_all ic r rep (Some c) cs)"
  by pat_completeness auto
termination
  by (relation "measure (\<lambda>(ic, r, rep, p, s). length s)") auto

definition js_replace_all :: "bool \<Rightarrow> regex \<Rightarrow> string \<Rightarrow> string \<Rightarrow> string" where
  "js_replace_all ic r rep s = replace_all ic r rep None s"

text \<open>
  \<^verbatim>\<open>s.split(r)\<close> for a regular expression: \<open>piece\<close> is the current piece, reversed.
  A match that is not empty ends the piece; at the end of the input the piece is the
  last one. The empty input gives one empty piece unless \<open>r\<close> matches it.
\<close>

function split_loop :: "bool \<Rightarrow> regex \<Rightarrow> string \<Rightarrow> char option \<Rightarrow> string \<Rightarrow> string list" where
  "split_loop ic r piece p [] = [rev piece]"
| "split_loop ic r piece p (c # cs) =
     (case rmatch ic r (MState p (c # cs) []) of
        [] \<Rightarrow> split_loop ic r (c # piece) (Some c) cs
      | MState p' rest' caps # others \<Rightarrow>
          if length rest' < length (c # cs) then rev piece # split_loop ic r [] p' rest'
          else if piece = [] then split_loop ic r [c] (Some c) cs
          else rev piece # split_loop ic r [c] (Some c) cs)"
  by pat_completeness auto
termination
  by (relation "measure (\<lambda>(ic, r, piece, p, s). length s)") auto

definition js_split :: "bool \<Rightarrow> regex \<Rightarrow> string \<Rightarrow> string list" where
  "js_split ic r s =
     (if s = [] then (if rmatch ic r (MState None [] []) = [] then [[]] else [])
      else split_loop ic r [] None s)"

text \<open>
  \<^verbatim>\<open>parseInt(s)\<close> and \<^verbatim>\<open>parseFloat(s)\<close>, for the strings the parser applies them to:
  optional white space and sign, then decimal digits and, for \<^verbatim>\<open>parseFloat\<close>, an optional
  fraction. \<open>None\<close> is \<^verbatim>\<open>NaN\<close>. The hexadecimal prefix of \<^verbatim>\<open>parseInt\<close> and the exponent
  part and \<^verbatim>\<open>Infinity\<close> of \<^verbatim>\<open>parseFloat\<close> are not modelled; the strings that reach the
  two functions are groups of digits, with one optional fraction.
\<close>

definition split_sign :: "string \<Rightarrow> int \<times> string" where
  "split_sign s =
     (case s of
        [] \<Rightarrow> (1, [])
      | c # cs \<Rightarrow> if c = CHR ''-'' then (- 1, cs) else if c = CHR ''+'' then (1, cs) else (1, s))"

definition parseInt :: "string \<Rightarrow> int option" where
  "parseInt s =
     (let (sign, t) = split_sign (dropWhile is_space s);
          digits = takeWhile is_digit t
      in if digits = [] then None else Some (sign * decimal_value digits))"

definition parseFloat :: "string \<Rightarrow> rat option" where
  "parseFloat s =
     (let (sign, t) = split_sign (dropWhile is_space s);
          ip = takeWhile is_digit t;
          after = dropWhile is_digit t;
          fp = (case after of
                  [] \<Rightarrow> []
                | c # cs \<Rightarrow> if c = CHR ''.'' then takeWhile is_digit cs else [])
      in if ip = [] \<and> fp = [] then None
         else Some (of_int sign *
                fl64 (of_int (decimal_value ip)
                      + of_int (decimal_value fp) / of_int (10 ^ length fp))))"


section \<open>The heuristic line parser (\<^verbatim>\<open>intelligentItemParser\<close>)\<close>

subsection \<open>The patterns\<close>

text \<open>Each pattern is the pair of its flag \<^verbatim>\<open>i\<close> and its regular expression; the
  source text of each is given with it.\<close>

definition digits1 :: regex where \<comment> \<open>\<^verbatim>\<open>\d+\<close>\<close>
  "digits1 = Plus (Class [CDigit])"

definition spaces0 :: regex where \<comment> \<open>\<^verbatim>\<open>\s*\<close>\<close>
  "spaces0 = Star (Class [CSpace])"

definition label_sep :: regex where \<comment> \<open>\<^verbatim>\<open>[:\s]*\<close>\<close>
  "label_sep = Star (Class [CChar CHR '':'', CSpace])"

definition word1 :: regex where \<comment> \<open>\<^verbatim>\<open>[\w]+\<close>\<close>
  "word1 = Plus (Class [CWord])"

definition amount :: regex where \<comment> \<open>\<^verbatim>\<open>\d+(?:,\d+)?(?:\.\d+)?\<close>\<close>
  "amount = seqs [digits1, Opt (Seq (Lit CHR '','') digits1), Opt (Seq (Lit CHR ''.'') digits1)]"

definition rupee_sign :: string where \<comment> \<open>U+20B9 in UTF-8\<close>
  "rupee_sign = [CHR 0xE2, CHR 0x82, CHR 0xB9]"

definition en_dash :: string where \<comment> \<open>U+2013 in UTF-8\<close>
  "en_dash = [CHR 0xE2, CHR 0x80, CHR 0x93]"

definition em_dash :: string where \<comment> \<open>U+2014 in UTF-8\<close>
  "em_dash = [CHR 0xE2, CHR 0x80, CHR 0x94]"

definition header_pattern :: "bool \<times> regex" where
  \<comment> \<open>\<^verbatim>\<open>/^(item|name|product|description|sr\.?no|s\.?no|#)/i\<close>\<close>
  "header_pattern =
     (True, Seq Bol (Grp 1 (alts
        [str ''item'', str ''name'', str ''product'', str ''description'',
         seqs [str ''sr'', Opt (Lit CHR ''.''), str ''no''],
         seqs [str ''s'', Opt (Lit CHR ''.''), str ''no''],
         str ''#''])))"

definition footer_pattern :: "bool \<times> regex" where
  \<comment> \<open>\<^verbatim>\<open>/^(total|subtotal|grand|tax|gst|discount)/i\<close>\<close>
  "footer_pattern =
     (True, Seq Bol (Grp 1 (alts
        [str ''total'', str ''subtotal'', str ''grand'', str ''tax'', str ''gst'',
         str ''discount''])))"

definition qty_pattern_1 :: "bool \<times> regex" where
  \<comment> \<open>\<^verbatim>\<open>/(\d+)\s*(pcs?|pieces?|nos?|units?|qty)/i\<close>\<close>
  "qty_pattern_1 =
     (True, seqs [Grp 1 digits1, spaces0,
        Grp 2 (alts [Seq (str ''pc'') (Opt (Lit CHR ''s'')),
                     Seq (str ''piece'') (Opt (Lit CHR ''s'')),
                     Seq (str ''no'') (Opt (Lit CHR ''s'')),
                     Seq (str ''unit'') (Opt (Lit CHR ''s'')),
                     str ''qty''])])"

definition qty_pattern_2 :: "bool \<times> regex" where
  \<comment> \<open>\<^verbatim>\<open>/qty[:\s]*(\d+)/i\<close>\<close>
  "qty_pattern_2 = (True, seqs [str ''qty'', label_sep, Grp 1 digits1])"

definition qty_pattern_3 :: "bool \<times> regex" where
  \<comment> \<open>\<^verbatim>\<open>/^(\d+)\s+/\<close>\<close>
  "qty_pattern_3 = (False, seqs [Bol, Grp 1 digits1, Plus (Class [CSpace])])"

definition qty_pattern_4 :: "bool \<times> regex" where
  \<comment> \<open>\<^verbatim>\<open>/x\s*(\d+)/i\<close>\<close>
  "qty_pattern_4 = (True, seqs [Lit CHR ''x'', spaces0, Grp 1 digits1])"

definition qty_pattern_5 :: "bool \<times> regex" where
  \<comment> \<open>\<^verbatim>\<open>/(\d+)\s*$/\<close>\<close>
  "qty_pattern_5 = (False, seqs [Grp 1 digits1, spaces0, Eol])"

definition qtyPatterns :: "(bool \<times> regex) list" where
  "qtyPatterns = [qty_pattern_1, qty_pattern_2, qty_pattern_3, qty_pattern_4, qty_pattern_5]"

text \<open>In the price patterns \<open>RUPEE\<close> stands for the rupee sign (U+20B9).\<close>

definition currency_word :: regex where
  \<comment> \<open>\<^verbatim>\<open>rs\.?|RUPEE|inr\<close>\<close>
  "currency_word = alts [Seq (str ''rs'') (Opt (Lit CHR ''.'')), str rupee_sign, str ''inr'']"

definition price_pattern_1 :: "bool \<times> regex" where
  \<comment> \<open>\<^verbatim>\<open>/(?:rs\.?|RUPEE|inr)\s*(\d+(?:,\d+)?(?:\.\d+)?)/i\<close>\<close>
  "price_pattern_1 = (True, seqs [currency_word, spaces0, Grp 1 amount])"

definition price_pattern_2 :: "bool \<times> regex" where
  \<comment> \<open>\<^verbatim>\<open>/@\s*(\d+(?:,\d+)?(?:\.\d+)?)/\<close>\<close>
  "price_pattern_2 = (False, seqs [Lit CHR ''@'', spaces0, Grp 1 amount])"

definition price_pattern_3 :: "bool \<times> regex" where
  \<comment> \<open>\<^verbatim>\<open>/(\d+(?:,\d+)?(?:\.\d+)?)\s*(?:rs\.?|RUPEE|inr|each|per)/i\<close>\<close>
  "price_pattern_3 =
     (True, seqs [Grp 1 amount, spaces0,
        alts [Seq (str ''rs'') (Opt (Lit CHR ''.'')), str rupee_sign, str ''inr'',
              str ''each'', str ''per'']])"

definition price_pattern_4 :: "bool \<times> regex" where
  \<comment> \<open>\<^verbatim>\<open>/price[:\s]*(\d+(?:,\d+)?(?:\.\d+)?)/i\<close>\<close>
  "price_pattern_4 = (True, seqs [str ''price'', label_sep, Grp 1 amount])"

definition price_pattern_5 :: "bool \<times> regex" where
  \<comment> \<open>\<^verbatim>\<open>/rate[:\s]*(\d+(?:,\d+)?(?:\.\d+)?)/i\<close>\<close>
  "price_pattern_5 = (True, seqs [str ''rate'', label_sep, Grp 1 amount])"

definition price_pattern_6 :: "bool \<times> regex" where
  \<comment> \<open>\<^verbatim>\<open>/cost[:\s]*(\d+(?:,\d+)?(?:\.\d+)?)/i\<close>\<close>
  "price_pattern_6 = (True, seqs [str ''cost'', label_sep, Grp 1 amount])"

definition pricePatterns :: "(bool \<times> regex) list" where
  "pricePatterns = [price_pattern_1, price_pattern_2, price_pattern_3, price_pattern_4,
     price_pattern_5, price_pattern_6]"

definition size_pattern_1 :: "bool \<times> regex" where
  \<comment> \<open>\<^verbatim>\<open>/\b(xxs|xs|s|m|l|xl|xxl|xxxl|2xl|3xl|4xl)\b/i\<close>\<close>
  "size_pattern_1 =
     (True, seqs [WordB,
        Grp 1 (alts (map str [''xxs'', ''xs'', ''s'', ''m'', ''l'', ''xl'', ''xxl'', ''xxxl'',
                              ''2xl'', ''3xl'', ''4xl''])),
        WordB])"

definition size_pattern_2 :: "bool \<times> regex" where
  \<comment> \<open>\<^verbatim>\<open>/size[:\s]*([\w]+)/i\<close>\<close>
  "size_pattern_2 = (True, seqs [str ''size'', label_sep, Grp 1 word1])"

definition size_pattern_3 :: "bool \<times> regex" where
  \<comment> \<open>\<^verbatim>\<open>/\b(\d{2})\b/\<close>\<close>
  "size_pattern_3 = (False, seqs [WordB, Grp 1 (Seq (Class [CDigit]) (Class [CDigit])), WordB])"

definition sizePatterns :: "(bool \<times> regex) list" where
  "sizePatterns = [size_pattern_1, size_pattern_2, size_pattern_3]"

definition color_pattern_1 :: "bool \<times> regex" where
  \<comment> \<open>\<^verbatim>\<open>/\b(red|blue|green|yellow|black|white|pink|purple|orange|brown|grey|gray|navy|maroon|beige|cream|gold|silver)\b/i\<close>\<close>
  "color_pattern_1 =
     (True, seqs [WordB,
        Grp 1 (alts (map str [''red'', ''blue'', ''green'', ''yellow'', ''black'', ''white'',
                              ''pink'', ''purple'', ''orange'', ''brown'', ''grey'', ''gray'',
                              ''navy'', ''maroon'', ''beige'', ''cream'', ''gold'', ''silver''])),
        WordB])"

definition color_pattern_2 :: "bool \<times> regex" where
  \<comment> \<open>\<^verbatim>\<open>/color[:\s]*([\w]+)/i\<close>\<close>
  "color_pattern_2 = (True, seqs [str ''color'', label_sep, Grp 1 word1])"

definition color_pattern_3 :: "bool \<times> regex" where
  \<comment> \<open>\<^verbatim>\<open>/colour[:\s]*([\w]+)/i\<close>\<close>
  "color_pattern_3 = (True, seqs [str ''colour'', label_sep, Grp 1 word1])"

definition colorPatterns :: "(bool \<times> regex) list" where
  "colorPatterns = [color_pattern_1, color_pattern_2, color_pattern_3]"

definition dash_pattern :: regex where
  \<comment> \<open>\<^verbatim>\<open>/[-EN_DASH EM_DASH]/g\<close>, a class of the hyphen and the two long dashes\<close>
  "dash_pattern = alts [Lit CHR ''-'', str en_dash, str em_dash]"

definition spaces_pattern :: regex where \<comment> \<open>\<^verbatim>\<open>/\s+/g\<close>\<close>
  "spaces_pattern = Plus (Class [CSpace])"

definition punctuation_pattern :: regex where \<comment> \<open>\<^verbatim>\<open>/[,;:@#$%^&*()]/g\<close>\<close>
  "punctuation_pattern = Class (map CChar '',;:@#$%^&*()'')"

definition only_digits_pattern :: regex where \<comment> \<open>\<^verbatim>\<open>/^\d+$/\<close>\<close>
  "only_digits_pattern = seqs [Bol, digits1, Eol]"

definition line_break_pattern :: regex where \<comment> \<open>\<^verbatim>\<open>/[\n\r]+/\<close>\<close>
  "line_break_pattern = Plus (Class [CChar (CHR 0x0A), CChar (CHR 0x0D)])"

text \<open>\<^verbatim>\<open>new RegExp(`\\b${token}\\b`, 'gi')\<close>. The tokens that reach it are a size or a
  colour, made of word characters only, so that the token stands for itself.\<close>

definition whole_word :: "string \<Rightarrow> regex" where
  "whole_word token = seqs [WordB, str token, WordB]"

subsection \<open>One line\<close>

text \<open>The \<^verbatim>\<open>for (const pattern of ...)\<close> loops: the first pattern that matches.\<close>

fun first_match :: "(bool \<times> regex) list \<Rightarrow> string \<Rightarrow> (string \<times> (nat \<times> string) list) option" where
  "first_match [] s = None"
| "first_match ((ic, r) # patterns) s =
     (case js_match ic r s of
        Some m \<Rightarrow> Some m
      | None \<Rightarrow> first_match patterns s)"

text \<open>The fields that the parser reads off a line.\<close>

record line_fields =
  f_name :: string
  f_quantity :: int
  f_unitCost :: rat
  f_size :: string
  f_color :: string

text \<open>\<^verbatim>\<open>match[1].charAt(0).toUpperCase() + match[1].slice(1).toLowerCase()\<close>.\<close>

definition capitalize :: "string \<Rightarrow> string" where
  "capitalize s = toUpperCase (take 1 s) @ toLowerCase (drop 1 s)"

text \<open>
  The body of the loop over the lines, up to the two tests that drop a candidate:
  \<open>None\<close> is \<^verbatim>\<open>continue\<close>.
\<close>

definition extract_fields :: "string \<Rightarrow> line_fields option" where
  "extract_fields line =
     (if js_test (fst header_pattern) (snd header_pattern) (trim line) then None
      else if js_test (fst footer_pattern) (snd footer_pattern) (trim line) then None
      else
        let cleanLine = trim line;
            (quantity, itemName1) =
              (case first_match qtyPatterns cleanLine of
                 None \<Rightarrow> (1, cleanLine)
               | Some (m0, caps) \<Rightarrow>
                   ((case parseInt (group 1 caps) of
                       None \<Rightarrow> 1
                     | Some q \<Rightarrow> if q = 0 then 1 else q),
                    trim (replace_first m0 '' '' cleanLine)));
            (unitCost, itemName2) =
              (case first_match pricePatterns cleanLine of
                 None \<Rightarrow> (0, itemName1)
               | Some (m0, caps) \<Rightarrow>
                   ((case parseFloat (filter (\<lambda>c. c \<noteq> CHR '','') (group 1 caps)) of
                       None \<Rightarrow> 0
                     | Some x \<Rightarrow> x),
                    trim (replace_first m0 '' '' itemName1)));
            size = (case first_match sizePatterns cleanLine of
                      None \<Rightarrow> []
                    | Some (m0, caps) \<Rightarrow> toUpperCase (group 1 caps));
            color = (case first_match colorPatterns cleanLine of
                       None \<Rightarrow> []
                     | Some (m0, caps) \<Rightarrow> capitalize (group 1 caps));
            itemName3 =
              trim (js_replace_all False punctuation_pattern '' ''
                     (js_replace_all False spaces_pattern '' ''
                       (js_replace_all False dash_pattern '' '' itemName2)));
            itemName4 =
              (if size \<noteq> [] then trim (js_replace_all True (whole_word size) [] itemName3)
               else itemName3);
            itemName5 =
              (if color \<noteq> [] then trim (js_replace_all True (whole_word color) [] itemName4)
               else itemName4)
        in if length itemName5 < 2 then None
           else if js_test False only_digits_pattern itemName5 then None
           else Some \<lparr>f_name = itemName5, f_quantity = quantity, f_unitCost = unitCost,
                       f_size = size, f_color = color\<rparr>)"

text \<open>The generated SKU and the row pushed to \<^verbatim>\<open>items\<close>; \<open>uuid\<close> is what this row's
  call of \<^verbatim>\<open>uuidv4()\<close> returned.\<close>

definition make_row :: "string \<Rightarrow> line_fields \<Rightarrow> BOMRow" where
  "make_row uuid f =
     \<lparr>r_name = f_name f,
      r_quantity = f_quantity f,
      r_unitCost = f_unitCost f,
      r_sku = toUpperCase (take 3 (f_name f)) @ ''-''
              @ (if f_size f \<noteq> [] then f_size f else ''STD'') @ ''-''
              @ toUpperCase (take 4 uuid),
      r_size = f_size f,
      r_color = f_color f,
      r_vendor = [],
      r_hsn = [],
      r_action = Create,
      r_matchedItemId = None\<rparr>"

subsection \<open>The whole text\<close>

text \<open>The loop over the lines; \<open>n\<close> counts the calls of \<^verbatim>\<open>uuidv4()\<close> made so far, and
  the result carries the count after the loop.\<close>

fun parse_lines :: "(nat \<Rightarrow> string) \<Rightarrow> nat \<Rightarrow> string list \<Rightarrow> BOMRow list \<times> nat" where
  "parse_lines uuidv4 n [] = ([], n)"
| "parse_lines uuidv4 n (line # lines) =
     (case extract_fields line of
        None \<Rightarrow> parse_lines uuidv4 n lines
      | Some f \<Rightarrow>
          (let (rows, n') = parse_lines uuidv4 (n + 1) lines
           in (make_row (uuidv4 n) f # rows, n')))"

definition intelligentItemParser :: "(nat \<Rightarrow> string) \<Rightarrow> nat \<Rightarrow> string \<Rightarrow> BOMRow list \<times> nat" where
  "intelligentItemParser uuidv4 n text =
     (let lines = filter (\<lambda>line. trim line \<noteq> []) (js_split False line_break_pattern text)
      in parse_lines uuidv4 n lines)"

section \<open>Spreadsheet upload: the fall-back to the line parser (\<^verbatim>\<open>parseSpreadsheet\<close>)\<close>

text \<open>
  \<open>columnRows\<close> is the list \<^verbatim>\<open>rows\<close> after the column mapping and its filter (the cell
  coercions of the mapping are not modelled), \<open>rawText\<close> is what
  \<^verbatim>\<open>XLSX.utils.sheet_to_txt\<close> returns for the sheet, \<open>existingItems\<close> the catalogue. The
  result is the list handed to \<^verbatim>\<open>setParsedRows\<close>.
\<close>

definition parseSpreadsheet ::
  "(nat \<Rightarrow> string) \<Rightarrow> nat \<Rightarrow> InventoryItem list \<Rightarrow> BOMRow list \<Rightarrow> string \<Rightarrow> BOMRow list \<times> nat" where
  "parseSpreadsheet uuidv4 n existingItems columnRows rawText =
     (let (rows, n') =
            (if length columnRows = 0 then intelligentItemParser uuidv4 n rawText
             else (columnRows, n))
      in (matchWithExistingInventory existingItems rows, n'))"


section \<open>Properties of the similarity score\<close>

lemma includes_sublist: "js_includes w x \<longleftrightarrow> sublist x w"
  by (induction w) (auto simp: sublist_Cons_right)

lemma count_matches_filter:
  "count_matches lw sw m =
     m + length (filter (\<lambda>w. list_ex (\<lambda>v. sublist w v \<or> sublist v w) lw) sw)"
  by (induction sw arbitrary: m) (auto simp: includes_sublist list_ex_iff)

lemma split_space_not_Nil: "split_space s \<noteq> []"
  by (induction s) (auto split: list.splits)


text \<open>
  Claim C3 says that the score is symmetric. It is not: when both strings have the same
  number of characters the source takes the first argument as the shorter one, so
  swapping the arguments swaps the roles of the two word lists. \<^verbatim>\<open>"blue jean"\<close> and
  \<^verbatim>\<open>"bluejeans"\<close> have nine characters each and score 1 one way round and 1/2 the
  other way round.
\<close>

theorem similarity_not_symmetric:
  "calculateSimilarity ''blue jean'' ''bluejeans'' = 1
   \<and> calculateSimilarity ''bluejeans'' ''blue jean'' = 1 / 2
   \<and> calculateSimilarity ''blue jean'' ''bluejeans''
       \<noteq> calculateSimilarity ''bluejeans'' ''blue jean''"
  by (simp add: calculateSimilarity_def)

text \<open>
  Claim C3, amended: for every pair of strings with different numbers of characters,
  \<open>calculateSimilarity a b = calculateSimilarity b a\<close>.
\<close>

theorem similarity_symmetric_if_lengths_differ:
  "length a \<noteq> length b \<Longrightarrow> calculateSimilarity a b = calculateSimilarity b a"
  by (auto simp: calculateSimilarity_def Let_def max.commute)

theorem similarity_symmetric_if_lengths_differ_witness:
  "length ''blue jeans'' \<noteq> length ''jeans''
   \<and> calculateSimilarity ''blue jeans'' ''jeans'' = calculateSimilarity ''jeans'' ''blue jeans''"
  using similarity_symmetric_if_lengths_differ [of "''blue jeans''" "''jeans''"] by simp

text \<open>
  Claim C4 says that the score equals the reference definition that splits the names on
  white space. The source splits at single spaces only, so a tab does not separate
  words (and two spaces in a row enclose an empty word, which every word contains):
  for \<^verbatim>\<open>"blue<TAB>jeans"\<close> against \<^verbatim>\<open>"blue"\<close> the source compares the one word
  \<^verbatim>\<open>"blue<TAB>jeans"\<close> with \<^verbatim>\<open>"blue"\<close> and returns 1, where the reference definition
  has two words against one and gives 1/2.
\<close>

theorem similarity_differs_from_whitespace_reference:
  "calculateSimilarity (''blue'' @ [CHR 0x09] @ ''jeans'') ''blue'' = 1
   \<and> similarity_ref whitespace_words (''blue'' @ [CHR 0x09] @ ''jeans'') ''blue'' = 1 / 2"
  by (simp add: calculateSimilarity_def similarity_ref_def whitespace_words_def is_space_def)

text \<open>
  Claim C4, amended: for every pair of names the score equals the reference definition
  in which both names are split at every single space character (empty words kept, so
  that the empty name has one empty word): a word of the shorter name counts as matched
  when some word of the longer name contains it or is contained in it as a substring,
  and the score is the matched-word count divided by the maximum of the two word
  counts. The shorter name is the one with fewer characters, the first argument when
  both have the same number.
\<close>

theorem similarity_refines_space_split_reference:
  "calculateSimilarity a b = similarity_ref split_space a b"
proof (cases "a = [] \<and> b = []")
  case True
  then show ?thesis by (simp add: calculateSimilarity_def similarity_ref_def)
next
  case False
  then show ?thesis
    by (auto simp: calculateSimilarity_def similarity_ref_def Let_def count_matches_filter)
qed

theorem similarity_refines_space_split_reference_witness:
  "calculateSimilarity ''navy blue polo'' ''blue polo'' = 2 / 3
   \<and> similarity_ref split_space ''navy blue polo'' ''blue polo'' = 2 / 3"
  using similarity_refines_space_split_reference [of "''navy blue polo''" "''blue polo''"]
  by (simp add: calculateSimilarity_def)

section \<open>Properties of the inventory matcher\<close>







lemma toLowerCase_samples:
  "toLowerCase ''blue jeans'' = ''blue jeans''"
  "toLowerCase ''Blue Jeans'' = ''blue jeans''"
  "toLowerCase ''silk saree'' = ''silk saree''"
  "toLowerCase ''SKU-1'' = ''sku-1''"
  "toLowerCase ''JEA-32'' = ''jea-32''"
  by (simp_all add: toLowerCase_def lower_char_def)


lemma sample_is_match:
  "is_match (sample_row ''blue jeans'') (sample_item ''inv-1'' ''Blue Jeans'')"
  by (simp add: is_match_def sample_row_def sample_item_def toLowerCase_samples)





section \<open>Properties of the data store and of the commit\<close>


lemma db_get_write_same: "db_get (db_write db item) (i_id item) = Some item"
proof -
  have a: "find (\<lambda>i. i_id i = k) (xs @ [item]) = Some item"
    if "\<not> list_ex (\<lambda>i. i_id i = k) xs" "i_id item = k" for xs k
    using that by (induction xs) auto
  have b: "find (\<lambda>i. i_id i = k) (map (\<lambda>i. if i_id i = k then item else i) xs) = Some item"
    if "list_ex (\<lambda>i. i_id i = k) xs" "i_id item = k" for xs k
    using that by (induction xs) auto
  show ?thesis
    unfolding db_get_def db_write_def using a b by auto
qed






lemma commit_rows_append:
  "commit_rows U T s (xs @ ys) = commit_rows U T (commit_rows U T s xs) ys"
  by (induction xs arbitrary: s) auto

lemma handleConfirm_append:
  "handleConfirm U T s (xs @ ys) = handleConfirm U T (handleConfirm U T s xs) ys"
  by (simp add: handleConfirm_def commit_rows_append)

lemma handleConfirm_single:
  "r_action row \<noteq> Ignore \<Longrightarrow> handleConfirm U T s [row] = commit_row U T s row"
  by (simp add: handleConfirm_def)

lemma handleConfirm_snoc:
  "r_action row \<noteq> Ignore \<Longrightarrow>
     handleConfirm U T s (pre @ [row]) = commit_row U T (handleConfirm U T s pre) row"
  by (simp add: handleConfirm_append handleConfirm_single)


lemma create_item_get:
  "db_get (s_db (create_item U T s row)) (U (s_uuid_calls s + 1)) =
     Some \<lparr>i_id = U (s_uuid_calls s + 1),
           i_name = r_name row,
           i_sku = (if r_sku row \<noteq> [] then r_sku row
                    else toUpperCase (take 3 (r_name row)) @ ''-'' @ take 6 (U (s_uuid_calls s + 2))),
           i_category = ''General'',
           i_hsn = r_hsn row,
           i_variants = [\<lparr>v_id = U (s_uuid_calls s), v_size = r_size row,
                          v_color = r_color row, v_stock = r_quantity row\<rparr>],
           i_vendor = r_vendor row,
           i_purchasePrice = r_unitCost row,
           i_sellingPrice =
             (if r_unitCost row > 0
              then of_int (Math_round (js_times (r_unitCost row) js_1_4)) else 0),
           i_taxRate = 12,
           i_lowStockThreshold = 5,
           i_createdAt = T (s_date_calls s),
           i_updatedAt = T (s_date_calls s + 1)\<rparr>"
  (is "db_get _ ?k = Some ?item")
proof -
  have k: "i_id ?item = ?k" by simp
  have "s_db (create_item U T s row) = db_write (s_db s) ?item"
    by (simp add: create_item_def Let_def db_add_def)
  then show ?thesis
    using db_get_write_same [of "s_db s" ?item] unfolding k by simp
qed


lemma create_item_counters:
  "s_created (create_item U T s row) = s_created s + 1"
  "s_updated (create_item U T s row) = s_updated s"
  by (simp_all add: create_item_def Let_def)








text \<open>
  Claim C8: an \<open>Update\<close> row whose \<open>matchedItemId\<close> resolves to no item of the store
  at the moment the loop reaches it is skipped. The whole outcome of the commit (the
  store, both counters, the identifiers and time stamps drawn) is that of the same batch
  without the row: the rows before it and the rows after it are processed as if it were
  not there.
\<close>

theorem unresolved_update_row_is_skipped:
  assumes "r_action row = Update" and "r_matchedItemId row = Some mid" and "mid \<noteq> []"
    and "db_get (s_db (handleConfirm U T s pre)) mid = None"
  shows "handleConfirm U T s (pre @ [row]) = handleConfirm U T s pre
         \<and> handleConfirm U T s (pre @ [row] @ post) = handleConfirm U T s (pre @ post)"
proof -
  have na: "r_action row \<noteq> Ignore" using assms(1) by simp
  have skip: "commit_row U T (handleConfirm U T s pre) row = handleConfirm U T s pre"
    using assms by (simp add: commit_row_def truthy_id_def id_value_def)
  have a: "handleConfirm U T s (pre @ [row]) = handleConfirm U T s pre"
    unfolding handleConfirm_snoc [OF na] by (rule skip)
  have "handleConfirm U T s (pre @ [row] @ post)
        = handleConfirm U T (handleConfirm U T s (pre @ [row])) post"
    using handleConfirm_append [of U T s "pre @ [row]" post] by simp
  also have "\<dots> = handleConfirm U T s (pre @ post)"
    unfolding a by (simp add: handleConfirm_append)
  finally show ?thesis using a by simp
qed

theorem unresolved_update_row_is_skipped_witness:
  "r_action (sample_update_row ''inv-9'') = Update
   \<and> r_matchedItemId (sample_update_row ''inv-9'') = Some ''inv-9''
   \<and> db_get (s_db (handleConfirm sample_uuid sample_now sample_session [])) ''inv-9'' = None
   \<and> handleConfirm sample_uuid sample_now sample_session [sample_update_row ''inv-9'']
       = sample_session
   \<and> handleConfirm sample_uuid sample_now sample_session
         [sample_update_row ''inv-9'', sample_row ''Silk Saree'']
       = handleConfirm sample_uuid sample_now sample_session [sample_row ''Silk Saree'']"
proof -
  let ?row = "sample_update_row ''inv-9''"
  have h1: "r_action ?row = Update" and h2: "r_matchedItemId ?row = Some ''inv-9''"
    by (simp_all add: sample_update_row_def sample_row_def)
  have h3: "''inv-9'' \<noteq> ([] :: string)" by simp
  have s0: "handleConfirm sample_uuid sample_now sample_session [] = sample_session"
    by (simp add: handleConfirm_def)
  have h4: "db_get (s_db (handleConfirm sample_uuid sample_now sample_session [])) ''inv-9''
            = None"
    unfolding s0 by (simp add: db_get_def sample_session_def sample_item_def)
  from unresolved_update_row_is_skipped [OF h1 h2 h3 h4, of "[sample_row ''Silk Saree'']"]
  show ?thesis using h1 h2 h4 unfolding s0 by simp
qed

text \<open>
  Claim C10: a row whose \<open>matchedItemId\<close> is undefined and whose action the review
  step's button has set to \<open>Update\<close> (\<^verbatim>\<open>updateRowAction\<close> changes the action only) is
  not ignored at commit and goes through the \<^verbatim>\<open>else\<close> branch: the commit of the batch
  up to and including that row is the commit of the rows before it followed by the
  creation of a new item for it. The new item carries the row's name, the created count
  goes up by one and the updated count does not change.
\<close>

theorem update_row_without_match_creates_item:
  assumes "k < length parsedRows" and "r_matchedItemId (parsedRows ! k) = None"
  shows
    "let rows = updateRowAction k Update parsedRows;
         row = rows ! k;
         s0 = handleConfirm U T s (take k rows);
         s1 = handleConfirm U T s (take (Suc k) rows)
     in r_action row = Update \<and> r_matchedItemId row = None \<and> r_action row \<noteq> Ignore
        \<and> s1 = create_item U T s0 row
        \<and> (\<exists>item. db_get (s_db s1) (U (s_uuid_calls s0 + 1)) = Some item
                    \<and> i_name item = r_name (parsedRows ! k)
                    \<and> map v_stock (i_variants item) = [r_quantity (parsedRows ! k)])
        \<and> s_created s1 = s_created s0 + 1
        \<and> s_updated s1 = s_updated s0"
proof -
  let ?rows = "updateRowAction k Update parsedRows"
  let ?row = "?rows ! k"
  let ?s0 = "handleConfirm U T s (take k ?rows)"
  have len: "length ?rows = length parsedRows"
    by (simp add: updateRowAction_def)
  have row: "?row = (parsedRows ! k)\<lparr>r_action := Update\<rparr>"
    using assms(1) by (simp add: updateRowAction_def)
  have a: "r_action ?row = Update" "r_matchedItemId ?row = None" "r_action ?row \<noteq> Ignore"
    "r_name ?row = r_name (parsedRows ! k)" "r_quantity ?row = r_quantity (parsedRows ! k)"
    unfolding row using assms(2) by simp_all
  have tk: "take (Suc k) ?rows = take k ?rows @ [?row]"
    using assms(1) len by (simp add: take_Suc_conv_app_nth)
  have step: "handleConfirm U T s (take (Suc k) ?rows) = create_item U T ?s0 ?row"
    unfolding tk handleConfirm_snoc [OF a(3)]
    using a(1,2) by (simp add: commit_row_def truthy_id_def)
  show ?thesis
    unfolding Let_def step
    using a create_item_get [of U T ?s0 ?row] create_item_counters [of U T ?s0 ?row]
    by simp
qed

theorem update_row_without_match_creates_item_witness:
  "(0::nat) < length [sample_row ''Silk Saree'']
   \<and> r_matchedItemId ([sample_row ''Silk Saree''] ! 0) = None
   \<and> updateRowAction 0 Update [sample_row ''Silk Saree'']
       = [(sample_row ''Silk Saree'')\<lparr>r_action := Update\<rparr>]
   \<and> handleConfirm sample_uuid sample_now sample_session
         (updateRowAction 0 Update [sample_row ''Silk Saree''])
       = create_item sample_uuid sample_now sample_session
           ((sample_row ''Silk Saree'')\<lparr>r_action := Update\<rparr>)
   \<and> s_created (handleConfirm sample_uuid sample_now sample_session
         (updateRowAction 0 Update [sample_row ''Silk Saree''])) = 1"
proof -
  let ?rows = "[sample_row ''Silk Saree'']"
  have h1: "(0::nat) < length ?rows" by simp
  have h2: "r_matchedItemId (?rows ! 0) = None" by (simp add: sample_row_def)
  have u: "updateRowAction 0 Update ?rows = [(sample_row ''Silk Saree'')\<lparr>r_action := Update\<rparr>]"
    by (simp add: updateRowAction_def)
  have s0: "handleConfirm sample_uuid sample_now sample_session [] = sample_session"
    by (simp add: handleConfirm_def)
  have c: "s_created sample_session = 0" by (simp add: sample_session_def)
  from update_row_without_match_creates_item [OF h1 h2, of sample_uuid sample_now sample_session]
  have eq: "handleConfirm sample_uuid sample_now sample_session
              [(sample_row ''Silk Saree'')\<lparr>r_action := Update\<rparr>]
            = create_item sample_uuid sample_now sample_session
                ((sample_row ''Silk Saree'')\<lparr>r_action := Update\<rparr>)"
    and cnt: "s_created (handleConfirm sample_uuid sample_now sample_session
                [(sample_row ''Silk Saree'')\<lparr>r_action := Update\<rparr>]) = 1"
    unfolding Let_def u by (simp_all add: s0 c create_item_counters)
  show ?thesis
    unfolding u using h1 h2 eq cnt by blast
qed


section \<open>Properties of the top-selling computation\<close>

lemma obj_set_keys:
  "map fst (obj_set obj k v) = (if k \<in> set (map fst obj) then map fst obj else map fst obj @ [k])"
  by (induction obj k v rule: obj_set.induct) (auto simp: image_iff)

lemma obj_set_map_of: "map_of (obj_set obj k v) = (map_of obj)(k \<mapsto> v)"
  by (induction obj) auto

lemma first_occurrences_cong:
  "set seen = set seen' \<Longrightarrow> first_occurrences seen xs = first_occurrences seen' xs"
proof (induction xs arbitrary: seen seen')
  case Nil
  then show ?case by simp
next
  case (Cons x xs)
  have "first_occurrences (x # seen) xs = first_occurrences (x # seen') xs"
    by (rule Cons.IH) (simp add: Cons.prems)
  moreover have "first_occurrences seen xs = first_occurrences seen' xs"
    by (rule Cons.IH) (rule Cons.prems)
  ultimately show ?case using Cons.prems by simp
qed

lemma first_occurrences_fresh:
  "set (first_occurrences seen xs) \<inter> set seen = {}"
proof (induction xs arbitrary: seen)
  case Nil
  then show ?case by simp
next
  case (Cons x xs)
  from Cons.IH [of seen] Cons.IH [of "x # seen"] show ?case by auto
qed

lemma first_occurrences_distinct: "distinct (first_occurrences seen xs)"
proof (induction xs arbitrary: seen)
  case Nil
  then show ?case by simp
next
  case (Cons x xs)
  show ?case using Cons.IH first_occurrences_fresh [of "x # seen" xs] by auto
qed

lemma fold_add_sale_keys:
  "map fst (fold add_sale ls obj)
   = map fst obj @ first_occurrences (map fst obj) (map li_itemName ls)"
proof (induction ls arbitrary: obj)
  case Nil
  then show ?case by simp
next
  case (Cons l ls)
  let ?k = "li_itemName l"
  show ?case
  proof (cases "?k \<in> set (map fst obj)")
    case True
    then have "map fst (add_sale l obj) = map fst obj"
      by (simp add: add_sale_def obj_set_keys)
    with True Cons.IH [of "add_sale l obj"] show ?thesis by simp
  next
    case False
    then have k: "map fst (add_sale l obj) = map fst obj @ [?k]"
      by (simp add: add_sale_def obj_set_keys)
    have "first_occurrences (map fst obj @ [?k]) (map li_itemName ls)
          = first_occurrences (?k # map fst obj) (map li_itemName ls)"
      by (rule first_occurrences_cong) auto
    with False k Cons.IH [of "add_sale l obj"] show ?thesis by simp
  qed
qed

lemma fold_add_sale_value:
  "obj_get_or_0 (fold add_sale ls obj) k = obj_get_or_0 obj k + total_sold ls k"
proof (induction ls arbitrary: obj)
  case Nil
  then show ?case by (simp add: total_sold_def)
next
  case (Cons l ls)
  have "obj_get_or_0 (add_sale l obj) k
        = obj_get_or_0 obj k + (if li_itemName l = k then li_quantity l else 0)"
    by (simp add: add_sale_def obj_get_or_0_def obj_set_map_of)
  with Cons.IH [of "add_sale l obj"] show ?case
    by (simp add: total_sold_def)
qed

lemma distinct_keys_rebuild:
  "distinct (map fst xs) \<Longrightarrow> xs = map (\<lambda>k. (k, obj_get_or_0 xs k)) (map fst xs)"
proof (induction xs)
  case Nil
  then show ?case by simp
next
  case (Cons p ps)
  obtain k v where p: "p = (k, v)" by (cases p)
  from Cons.prems p have nk: "k \<notin> set (map fst ps)" and d: "distinct (map fst ps)"
    by auto
  have same: "obj_get_or_0 (p # ps) k' = obj_get_or_0 ps k'" if "k' \<in> set (map fst ps)" for k'
    using that nk p by (auto simp: obj_get_or_0_def)
  have "map (\<lambda>k'. (k', obj_get_or_0 (p # ps) k')) (map fst ps)
        = map (\<lambda>k'. (k', obj_get_or_0 ps k')) (map fst ps)"
    by (rule map_cong) (auto simp: same)
  with Cons.IH [OF d] p show ?case
    by (simp add: obj_get_or_0_def)
qed

lemma fold_add_sale_totals: "fold add_sale ls [] = encounter_totals ls"
proof -
  let ?r = "fold add_sale ls []"
  have keys: "map fst ?r = first_occurrences [] (map li_itemName ls)"
    using fold_add_sale_keys [of ls "[]"] by simp
  then have "distinct (map fst ?r)"
    by (simp add: first_occurrences_distinct)
  from distinct_keys_rebuild [OF this]
  have "?r = map (\<lambda>k. (k, obj_get_or_0 ?r k)) (first_occurrences [] (map li_itemName ls))"
    unfolding keys .
  moreover have "obj_get_or_0 ?r k = total_sold ls k" for k
    using fold_add_sale_value [of ls "[]" k] by (simp add: obj_get_or_0_def)
  ultimately show ?thesis by (simp add: encounter_totals_def)
qed

lemma nested_forEach:
  "fold (\<lambda>inv obj. fold add_sale (inv_items inv) obj) invs obj
   = fold add_sale (concat (map inv_items invs)) obj"
  by (induction invs arbitrary: obj) auto

lemma Object_entries_no_index:
  assumes "\<forall>k\<in>set (map fst obj). \<not> is_array_index k"
  shows "Object_entries obj = obj"
proof -
  have "filter (\<lambda>(k, v). is_array_index k) obj = []"
    using assms by (auto simp: filter_empty_conv)
  moreover have "filter (\<lambda>(k, v). \<not> is_array_index k) obj = obj"
    using assms by (auto simp: filter_id_conv)
  ultimately show ?thesis by (simp add: Object_entries_def)
qed

lemma encounter_totals_keys:
  "set (map fst (encounter_totals ls)) \<subseteq> set (map li_itemName ls)"
proof -
  have "set (first_occurrences seen xs) \<subseteq> set xs" for seen and xs :: "string list"
    by (induction xs arbitrary: seen) auto
  from this [of "[]" "map li_itemName ls"] show ?thesis
    by (auto simp: encounter_totals_def comp_def)
qed

lemma sort_by_sold_desc_alt: "sort_by_sold_desc xs = sort_key (\<lambda>p. - snd p) xs"
  by (simp add: sort_by_sold_desc_def case_prod_unfold)

lemma sorted_uminus_rev: "sorted (map uminus (ys :: int list)) \<Longrightarrow> sorted (rev ys)"
  by (induction ys) (auto simp: sorted_append)

text \<open>
  What "sorted by total, descending, ties in encounter order" means for the reference
  definition: the sorted list has the same pairs, its totals descend, and the pairs
  with any one total stand in the order of the unsorted list.
\<close>

lemma top_selling_ref_order:
  "mset (sort_key (\<lambda>p. - snd p) xs) = mset xs"
  "sorted (rev (map snd (sort_key (\<lambda>p. - snd p) (xs :: (string \<times> int) list))))"
  "filter (\<lambda>p. snd p = t) (sort_key (\<lambda>p. - snd p) xs) = filter (\<lambda>p. snd p = t) xs"
proof -
  show "mset (sort_key (\<lambda>p. - snd p) xs) = mset xs" by simp
  have "sorted (map (\<lambda>p. - snd p) (sort_key (\<lambda>p. - snd p) xs))" by simp
  then have "sorted (map uminus (map snd (sort_key (\<lambda>p. - snd p) xs)))"
    by (simp add: comp_def)
  then show "sorted (rev (map snd (sort_key (\<lambda>p. - snd p) xs)))"
    by (rule sorted_uminus_rev)
  have "filter (\<lambda>p. - snd p = - t) (sort_key (\<lambda>p. - snd p) xs)
        = filter (\<lambda>p. - snd p = - t) xs"
    by (rule sort_key_stable)
  then show "filter (\<lambda>p. snd p = t) (sort_key (\<lambda>p. - snd p) xs) = filter (\<lambda>p. snd p = t) xs"
    by simp
qed


text \<open>
  Claim C9 says that ties are kept in the order in which the item names were first met.
  The totals are collected in a plain object, and \<^verbatim>\<open>Object.entries\<close> lists the keys
  that are array indices first, in numeric order. With one invoice of today that sells
  2 of \<^verbatim>\<open>"Shirt"\<close> and then 2 of \<^verbatim>\<open>"501"\<close> the source ranks \<^verbatim>\<open>"501"\<close> first, where
  the encounter order puts \<^verbatim>\<open>"Shirt"\<close> first.
\<close>

theorem top_selling_numeric_name_breaks_encounter_order:
  "topSellingItems 100 [sample_invoice 100 [(''Shirt'', 2), (''501'', 2)]]
     = Some [(''501'', 2), (''Shirt'', 2)]
   \<and> top_selling_ref 100 [sample_invoice 100 [(''Shirt'', 2), (''501'', 2)]]
     = [(''Shirt'', 2), (''501'', 2)]"
proof -
  have k: "is_array_index ''501''" "\<not> is_array_index ''Shirt''"
    by (simp_all add: is_array_index_def is_digit_def decimal_value_def digit_value_def)
  have a: "topSellingItems 100 [sample_invoice 100 [(''Shirt'', 2), (''501'', 2)]]
           = Some [(''501'', 2), (''Shirt'', 2)]"
    by (simp add: topSellingItems_def todayInvoices_def sample_invoice_def inherited_key_def
        add_sale_def obj_get_or_0_def Object_entries_def k sort_by_sold_desc_def)
  have b: "top_selling_ref 100 [sample_invoice 100 [(''Shirt'', 2), (''501'', 2)]]
           = [(''Shirt'', 2), (''501'', 2)]"
    by (simp add: top_selling_ref_def sample_invoice_def encounter_totals_def total_sold_def)
  from a b show ?thesis by simp
qed

text \<open>
  Claim C9, amended: given the invoices whose creation time is at or after local
  midnight, and provided that no item name on them is an array index (a canonical
  decimal numeral of an integer from 0 to \<open>2 ^ 32 - 2\<close>, such as \<^verbatim>\<open>"501"\<close>) or a
  property name inherited from \<^verbatim>\<open>Object.prototype\<close>, the computation sums the line
  quantities per item name over those invoices, sorts the pairs by total, descending,
  ties in the order in which the names were first met, and returns at most the first
  five pairs.
\<close>

theorem top_selling_refines_reference:
  assumes "\<forall>inv\<in>set invoices. today \<le> inv_createdAt inv \<longrightarrow>
             (\<forall>item\<in>set (inv_items inv).
                \<not> is_array_index (li_itemName item) \<and> \<not> inherited_key (li_itemName item))"
  shows "topSellingItems today invoices = Some (top_selling_ref today invoices)"
proof -
  let ?invs = "todayInvoices today invoices"
  let ?lines = "concat (map inv_items ?invs)"
  have names: "\<not> is_array_index n \<and> \<not> inherited_key n" if "n \<in> set (map li_itemName ?lines)" for n
    using that assms by (auto simp: todayInvoices_def)
  have no_inh: "\<not> list_ex (\<lambda>inv. list_ex (\<lambda>item. inherited_key (li_itemName item)) (inv_items inv)) ?invs"
    using assms by (auto simp: list_ex_iff todayInvoices_def)
  have acc: "fold (\<lambda>inv obj. fold add_sale (inv_items inv) obj) ?invs [] = encounter_totals ?lines"
    by (simp add: nested_forEach fold_add_sale_totals)
  have "\<forall>k\<in>set (map fst (encounter_totals ?lines)). \<not> is_array_index k"
    using encounter_totals_keys [of ?lines] names by blast
  then have ent: "Object_entries (encounter_totals ?lines) = encounter_totals ?lines"
    by (rule Object_entries_no_index)
  have "topSellingItems today invoices
        = Some (take 5 (sort_by_sold_desc (Object_entries (encounter_totals ?lines))))"
    unfolding topSellingItems_def Let_def acc using no_inh by simp
  then show ?thesis
    unfolding ent sort_by_sold_desc_alt
    by (simp add: top_selling_ref_def todayInvoices_def)
qed

theorem top_selling_refines_reference_witness:
  "topSellingItems 100
     [sample_invoice 100 [(''A'', 3), (''B'', 5)], sample_invoice 99 [(''C'', 9)],
      sample_invoice 200 [(''A'', 2)]]
   = Some [(''A'', 5), (''B'', 5)]"
proof -
  let ?invs = "[sample_invoice 100 [(''A'', 3), (''B'', 5)], sample_invoice 99 [(''C'', 9)],
                sample_invoice 200 [(''A'', 2)]]"
  have h: "\<forall>inv\<in>set ?invs. 100 \<le> inv_createdAt inv \<longrightarrow>
             (\<forall>item\<in>set (inv_items inv).
                \<not> is_array_index (li_itemName item) \<and> \<not> inherited_key (li_itemName item))"
    by (simp add: sample_invoice_def is_array_index_def is_digit_def inherited_key_def)
  have r: "top_selling_ref 100 ?invs = [(''A'', 5), (''B'', 5)]"
    by (simp add: top_selling_ref_def sample_invoice_def encounter_totals_def total_sold_def)
  from top_selling_refines_reference [OF h] show ?thesis
    unfolding r .
qed


section \<open>Properties of the line parser\<close>

lemma match_item_fields:
  "r_name (match_item ex row) = r_name row"
  "r_quantity (match_item ex row) = r_quantity row"
  "r_unitCost (match_item ex row) = r_unitCost row"
  "r_size (match_item ex row) = r_size row"
  "r_color (match_item ex row) = r_color row"
  by (simp_all add: match_item_def split: option.splits)

lemma make_row_fields:
  "r_name (make_row u f) = f_name f"
  "r_quantity (make_row u f) = f_quantity f"
  "r_unitCost (make_row u f) = f_unitCost f"
  "r_size (make_row u f) = f_size f"
  "r_color (make_row u f) = f_color f"
  "r_action (make_row u f) = Create"
  "r_matchedItemId (make_row u f) = None"
  by (simp_all add: make_row_def)

text \<open>A text that is one line with one candidate gives one row and draws one identifier.\<close>

lemma parser_single_line:
  assumes "js_split False line_break_pattern text = [text]" and "trim text \<noteq> []"
    and "extract_fields text = Some f"
  shows "intelligentItemParser U n text = ([make_row (U n) f], n + 1)"
  using assms by (simp add: intelligentItemParser_def)



lemma sample_line_2_fields:
  "extract_fields ''1. Blue Jeans Size 32 - Qty 10 - Rs.850'' =
     Some \<lparr>f_name = ''1.  Jeans Size'', f_quantity = 10, f_unitCost = 850, f_size = ''32'',
            f_color = ''Blue''\<rparr>"
  by code_simp

lemma sample_line_2_split:
  "js_split False line_break_pattern ''1. Blue Jeans Size 32 - Qty 10 - Rs.850''
     = [''1. Blue Jeans Size 32 - Qty 10 - Rs.850'']"
  "trim ''1. Blue Jeans Size 32 - Qty 10 - Rs.850'' \<noteq> []"
  by code_simp+

text \<open>
  Claim C2 says that the fall-back yields the row
  \<^verbatim>\<open>{name: "Blue Jeans", quantity: 10, unitCost: 850, size: "32"}\<close> for the line
  \<^verbatim>\<open>1. Blue Jeans Size 32 - Qty 10 - Rs.850\<close>. The fall-back does yield exactly one row
  with that quantity, unit cost and size, but its name is \<^verbatim>\<open>"1.  Jeans Size"\<close>: the
  quantity and price texts are cut out, the dashes become spaces, the size 32 and the
  colour word Blue are removed, and the list number and the word Size stay.
\<close>

theorem spreadsheet_fallback_sample_name:
  "map r_name (fst (parseSpreadsheet sample_uuid 0 [] []
                      ''1. Blue Jeans Size 32 - Qty 10 - Rs.850'')) = [''1.  Jeans Size'']
   \<and> ''1.  Jeans Size'' \<noteq> ''Blue Jeans''"
  using parser_single_line [OF sample_line_2_split sample_line_2_fields, of sample_uuid 0]
  by (simp add: parseSpreadsheet_def matchWithExistingInventory_def match_item_fields
      make_row_fields)

text \<open>
  Claim C2, amended: when the column mapping of a spreadsheet yields no row, the rows
  are those of the line parser on the text of the sheet, passed through the inventory
  matcher; for a sheet whose text is the line \<^verbatim>\<open>1. Blue Jeans Size 32 - Qty 10 - Rs.850\<close>
  this yields exactly one row, with name \<^verbatim>\<open>"1.  Jeans Size"\<close>, quantity 10, unit cost
  850, size \<^verbatim>\<open>"32"\<close> and colour \<^verbatim>\<open>"Blue"\<close>, whatever the catalogue and the identifier
  drawn for the SKU are.
\<close>

theorem spreadsheet_fallback_sample_row:
  "parseSpreadsheet U n existingItems [] rawText
     = (matchWithExistingInventory existingItems (fst (intelligentItemParser U n rawText)),
        snd (intelligentItemParser U n rawText))
   \<and> (\<exists>row.
         parseSpreadsheet U n existingItems [] ''1. Blue Jeans Size 32 - Qty 10 - Rs.850''
           = ([row], n + 1)
         \<and> r_name row = ''1.  Jeans Size''
         \<and> r_quantity row = 10
         \<and> r_unitCost row = 850
         \<and> r_size row = ''32''
         \<and> r_color row = ''Blue'')"
proof -
  have a: "parseSpreadsheet U n existingItems [] rawText
     = (matchWithExistingInventory existingItems (fst (intelligentItemParser U n rawText)),
        snd (intelligentItemParser U n rawText))"
    by (simp add: parseSpreadsheet_def case_prod_unfold Let_def)
  have "intelligentItemParser U n ''1. Blue Jeans Size 32 - Qty 10 - Rs.850''
        = ([make_row (U n)
              \<lparr>f_name = ''1.  Jeans Size'', f_quantity = 10, f_unitCost = 850,
                 f_size = ''32'', f_color = ''Blue''\<rparr>], n + 1)"
    by (rule parser_single_line [OF sample_line_2_split sample_line_2_fields])
  then have "parseSpreadsheet U n existingItems [] ''1. Blue Jeans Size 32 - Qty 10 - Rs.850''
        = ([match_item existingItems (make_row (U n)
              \<lparr>f_name = ''1.  Jeans Size'', f_quantity = 10, f_unitCost = 850,
                 f_size = ''32'', f_color = ''Blue''\<rparr>)], n + 1)"
    by (simp add: parseSpreadsheet_def matchWithExistingInventory_def)
  then show ?thesis
    using a by (simp add: match_item_fields make_row_fields)
qed

theorem spreadsheet_fallback_sample_row_witness:
  "map (\<lambda>row. (r_name row, r_quantity row, r_unitCost row, r_size row, r_color row))
     (fst (parseSpreadsheet sample_uuid 0 [sample_item ''inv-1'' ''Blue Jeans''] []
             ''1. Blue Jeans Size 32 - Qty 10 - Rs.850''))
   = [(''1.  Jeans Size'', 10, 850, ''32'', ''Blue'')]"
  using spreadsheet_fallback_sample_row
    [of sample_uuid 0 "[sample_item ''inv-1'' ''Blue Jeans'']" "[]"]
  by auto




end
